theory Spec2Isabelle
  imports Main "HOL-Library.Word"
begin

section \<open>Values, mappings and the program state\<close>

text \<open>
  The messages of \<^verbatim>\<open>app/processor.py\<close> are Python dictionaries with string keys
  (\<^verbatim>\<open>dict[str, Any]\<close>) whose values are whatever a decoded message can hold: \<^verbatim>\<open>None\<close>,
  booleans, integers, floats (a 64-bit pattern, never inspected by this module), strings,
  lists and nested dictionaries. The module never looks inside a nested container, so
  containers below the top level are carried as plain values.
\<close>

datatype pyval =
    PNone
  | PBool bool
  | PInt int
  | PFloat "64 word"
  | PStr string
  | PList "pyval list"
  | PDict "(string \<times> pyval) list"

type_synonym pydict = "string \<rightharpoonup> pyval"

text \<open>
  A message is an object: the functions receive and return references. The store maps
  every address to the dictionary it holds; addresses below \<open>lim\<close> are the objects
  that exist, and a new object is placed at \<open>lim\<close>. The calls made to the module's
  logger are kept in order in \<open>logged\<close>.
\<close>

type_synonym addr = nat

datatype log_level = DEBUG | INFO | ERROR

text \<open>
  One constructor per logging statement of the module; the arguments are the values
  handed to the format string at the time of the call.
\<close>

datatype log_message =
    Validating_message_schema
  | Invalid_message_schema pydict
  | Evaluating_strategy_for pyval
  | Final_strategy_decision_for pyval pydict

record pystate =
  heap :: "addr \<Rightarrow> pydict"
  lim :: addr
  logged :: "(log_level \<times> log_message) list"

datatype py_error = ValueError string

definition logger_call :: "log_level \<Rightarrow> log_message \<Rightarrow> pystate \<Rightarrow> pystate" where
  "logger_call lvl msg s = s\<lparr>logged := logged s @ [(lvl, msg)]\<rparr>"

text \<open>A dictionary display or \<^verbatim>\<open>{**a, **b}\<close> builds a new object.\<close>

definition new_dict :: "pydict \<Rightarrow> pystate \<Rightarrow> addr \<times> pystate" where
  "new_dict d s = (lim s, s\<lparr>heap := (heap s)(lim s := d), lim := Suc (lim s)\<rparr>)"

text \<open>\<^verbatim>\<open>d.get(k, default)\<close>: the stored value when the key is present, else the default.\<close>

definition dict_get :: "pydict \<Rightarrow> string \<Rightarrow> pyval \<Rightarrow> pyval" where
  "dict_get d k dflt = (case d k of None \<Rightarrow> dflt | Some v \<Rightarrow> v)"

text \<open>
  \<^verbatim>\<open>v in (s1, ..., sn)\<close> for a tuple of string literals compares \<^verbatim>\<open>v\<close> with each
  literal by \<^verbatim>\<open>==\<close>. A string equals a literal when it has the same characters; a
  value of any other kind (\<^verbatim>\<open>None\<close>, a number, a boolean, a list, a dictionary) is
  unequal to every string, and the comparison does not raise.
\<close>

definition py_in :: "pyval \<Rightarrow> string list \<Rightarrow> bool" where
  "py_in v ts = (case v of PStr t \<Rightarrow> t \<in> set ts | _ \<Rightarrow> False)"

section \<open>The validator\<close>

text \<open>
  \<^verbatim>\<open>validate_input_message\<close> (lines 17 to 34). The schema check
  \<^verbatim>\<open>validate_message_schema\<close> lives in \<^verbatim>\<open>app.utils.validate_data\<close>, outside this
  module; it is taken as a parameter, a boolean test of the message's contents.
\<close>

definition validate_input_message ::
  "(pydict \<Rightarrow> bool) \<Rightarrow> addr \<Rightarrow> pystate \<Rightarrow> (py_error + addr) \<times> pystate" where
  "validate_input_message validate_message_schema message s0 =
     (let s1 = logger_call DEBUG Validating_message_schema s0 in
      if \<not> validate_message_schema (heap s1 message)
      then (Inl (ValueError ''Invalid message format''),
            logger_call ERROR (Invalid_message_schema (heap s1 message)) s1)
      else (Inr message, s1))"

section \<open>The strategy evaluator\<close>

text \<open>
  \<^verbatim>\<open>evaluate_strategy\<close> (lines 37 to 69). Its local variables \<^verbatim>\<open>votes\<close>,
  \<^verbatim>\<open>vote_count\<close>, \<^verbatim>\<open>decision\<close> and \<^verbatim>\<open>result\<close> are functions of the contents of the
  message. The function has no \<^verbatim>\<open>raise\<close>, and none of its operations raises on the
  values above (\<^verbatim>\<open>get\<close> with a string key, membership in a tuple of strings, a sum
  of ones, an integer comparison, a dictionary display, the unpacking of two
  dictionaries), so on these values the model has no error result. Values of other
  classes are the subject of a later section.
\<close>

definition votes :: "pydict \<Rightarrow> pyval list" where
  "votes message =
     [dict_get message ''alpha_signal'' PNone,
      dict_get message ''momentum_signal'' PNone,
      dict_get message ''sentiment_signal'' PNone,
      dict_get message ''composite_signal'' PNone,
      dict_get message ''beta_signal'' PNone,
      dict_get message ''factor_signal'' PNone]"

definition vote_count :: "pydict \<Rightarrow> int" where
  "vote_count message =
     sum_list (map (\<lambda>v. 1)
       (filter (\<lambda>v. py_in v [''BUY'', ''INCLUDE'', ''OVEREXPOSED'', ''REVERT_UP''])
          (votes message)))"

definition decision :: "pydict \<Rightarrow> string" where
  "decision message = (if vote_count message \<ge> 3 then ''BUY'' else ''HOLD'')"

definition result :: "pydict \<Rightarrow> pydict" where
  "result message =
     [''final_strategy_decision'' \<mapsto> PStr (decision message),
      ''strategy_votes'' \<mapsto> PInt (vote_count message)]"

definition evaluate_strategy :: "addr \<Rightarrow> pystate \<Rightarrow> addr \<times> pystate" where
  "evaluate_strategy message s0 =
     (let symbol = dict_get (heap s0 message) ''symbol'' (PStr ''UNKNOWN'');
          s1 = logger_call INFO (Evaluating_strategy_for symbol) s0;
          (result_ref, s2) = new_dict (result (heap s1 message)) s1;
          s3 = logger_call DEBUG (Final_strategy_decision_for symbol (heap s2 result_ref)) s2
      in new_dict (heap s3 message ++ heap s3 result_ref) s3)"

text \<open>The mapping that the returned reference denotes once the call has returned.\<close>

definition evaluate_output :: "addr \<Rightarrow> pystate \<Rightarrow> pydict" where
  "evaluate_output message s =
     heap (snd (evaluate_strategy message s)) (fst (evaluate_strategy message s))"

section \<open>The vocabulary of the specification\<close>

text \<open>
  The specification speaks of six named signal fields, of a set of affirmative tokens and
  of the number of fields that hold one. These definitions follow its words; the
  evaluator above is compared with them.
\<close>

definition signal_fields :: "string list" where
  "signal_fields =
     [''alpha_signal'', ''momentum_signal'', ''sentiment_signal'',
      ''composite_signal'', ''beta_signal'', ''factor_signal'']"

definition affirmative :: "string set" where
  "affirmative = {''BUY'', ''INCLUDE'', ''OVEREXPOSED'', ''REVERT_UP''}"

definition spec_vote_count :: "pydict \<Rightarrow> nat" where
  "spec_vote_count m =
     card {k \<in> set signal_fields. \<exists>t \<in> affirmative. m k = Some (PStr t)}"

section \<open>Example messages\<close>

text \<open>A state holding one message, at address 0, and an empty log.\<close>

definition state_of :: "pydict \<Rightarrow> pystate" where
  "state_of m = \<lparr>heap = (\<lambda>a. Map.empty)(0 := m), lim = 1, logged = []\<rparr>"

definition msg_aapl :: pydict where
  "msg_aapl =
     [''symbol'' \<mapsto> PStr ''AAPL'', ''alpha_signal'' \<mapsto> PStr ''BUY'',
      ''momentum_signal'' \<mapsto> PStr ''BUY'', ''sentiment_signal'' \<mapsto> PStr ''BUY'']"

definition msg_msft :: pydict where
  "msg_msft =
     [''symbol'' \<mapsto> PStr ''MSFT'', ''alpha_signal'' \<mapsto> PStr ''SELL'',
      ''momentum_signal'' \<mapsto> PStr ''HOLD'']"

definition msg_no_symbol :: pydict where
  "msg_no_symbol =
     [''alpha_signal'' \<mapsto> PStr ''INCLUDE'', ''beta_signal'' \<mapsto> PStr ''OVEREXPOSED'']"

text \<open>
  A message whose signal fields hold an affirmative token twice, \<^verbatim>\<open>None\<close>, a number
  and a token that is not affirmative; \<^verbatim>\<open>factor_signal\<close> is absent.
\<close>

definition msg_mixed :: pydict where
  "msg_mixed =
     [''symbol'' \<mapsto> PStr ''IBM'', ''alpha_signal'' \<mapsto> PStr ''BUY'',
      ''momentum_signal'' \<mapsto> PNone, ''sentiment_signal'' \<mapsto> PInt 1,
      ''composite_signal'' \<mapsto> PStr ''REVERT_UP'', ''beta_signal'' \<mapsto> PStr ''SELL'']"

text \<open>A message that already carries the two keys the evaluator writes.\<close>

definition msg_collide :: pydict where
  "msg_collide =
     [''symbol'' \<mapsto> PStr ''TSLA'', ''alpha_signal'' \<mapsto> PStr ''BUY'',
      ''final_strategy_decision'' \<mapsto> PStr ''SELL'', ''strategy_votes'' \<mapsto> PInt 99]"

text \<open>A schema check to run the validator with: the message must have a symbol.\<close>

definition has_symbol :: "pydict \<Rightarrow> bool" where
  "has_symbol m = (m ''symbol'' \<noteq> None)"

section \<open>The evaluator on values of any class\<close>




















section \<open>What a call of the evaluator returns and leaves behind\<close>

lemma evaluate_strategy_fst: "fst (evaluate_strategy message s) = Suc (lim s)"
  by (simp add: evaluate_strategy_def new_dict_def logger_call_def Let_def)

lemma evaluate_strategy_heap:
  "heap (snd (evaluate_strategy message s)) =
     (heap s)(lim s := result (heap s message),
              Suc (lim s) := ((heap s)(lim s := result (heap s message))) message
                               ++ result (heap s message))"
  by (simp add: evaluate_strategy_def new_dict_def logger_call_def Let_def)

lemma evaluate_strategy_lim: "lim (snd (evaluate_strategy message s)) = Suc (Suc (lim s))"
  by (simp add: evaluate_strategy_def new_dict_def logger_call_def Let_def)

lemma evaluate_strategy_logged:
  "logged (snd (evaluate_strategy message s)) =
     logged s @
     [(INFO, Evaluating_strategy_for (dict_get (heap s message) ''symbol'' (PStr ''UNKNOWN''))),
      (DEBUG, Final_strategy_decision_for
                (dict_get (heap s message) ''symbol'' (PStr ''UNKNOWN''))
                (result (heap s message)))]"
  by (simp add: evaluate_strategy_def new_dict_def logger_call_def Let_def)

lemma evaluate_output_eq:
  "evaluate_output message s =
     ((heap s)(lim s := result (heap s message))) message ++ result (heap s message)"
  by (simp add: evaluate_output_def evaluate_strategy_fst evaluate_strategy_heap)

lemma evaluate_output_live:
  "message < lim s \<Longrightarrow>
     evaluate_output message s = heap s message ++ result (heap s message)"
  by (simp add: evaluate_output_eq)

lemma evaluate_output_decision:
  "evaluate_output message s ''final_strategy_decision'' =
     Some (PStr (decision (heap s message)))"
  by (simp add: evaluate_output_eq result_def map_add_def)

lemma evaluate_output_votes:
  "evaluate_output message s ''strategy_votes'' = Some (PInt (vote_count (heap s message)))"
  by (simp add: evaluate_output_eq result_def map_add_def)

section \<open>The vote count\<close>

lemma votes_map: "votes m = map (\<lambda>k. dict_get m k PNone) signal_fields"
  by (simp add: votes_def signal_fields_def)

lemma py_in_get:
  "py_in (dict_get m k PNone) [''BUY'', ''INCLUDE'', ''OVEREXPOSED'', ''REVERT_UP'']
     \<longleftrightarrow> (\<exists>t \<in> affirmative. m k = Some (PStr t))"
  by (auto simp: py_in_def dict_get_def affirmative_def split: option.splits pyval.splits)

lemma distinct_signal_fields: "distinct signal_fields"
  by (simp add: signal_fields_def)

lemma vote_count_length:
  "vote_count m =
     int (length (filter (\<lambda>k. \<exists>t \<in> affirmative. m k = Some (PStr t)) signal_fields))"
  by (simp add: vote_count_def votes_map filter_map comp_def py_in_get sum_list_triv)

lemma vote_count_spec: "vote_count m = int (spec_vote_count m)"
proof -
  let ?P = "\<lambda>k. \<exists>t \<in> affirmative. m k = Some (PStr t)"
  have "distinct (filter ?P signal_fields)"
    using distinct_signal_fields by simp
  then have "card (set (filter ?P signal_fields)) = length (filter ?P signal_fields)"
    by (rule distinct_card)
  moreover have "set (filter ?P signal_fields) = {k \<in> set signal_fields. ?P k}"
    by simp
  ultimately have "spec_vote_count m = length (filter ?P signal_fields)"
    unfolding spec_vote_count_def by simp
  then show ?thesis by (simp add: vote_count_length)
qed

lemma vote_count_bounds: "0 \<le> vote_count m \<and> vote_count m \<le> 6"
proof -
  let ?P = "\<lambda>k. \<exists>t \<in> affirmative. m k = Some (PStr t)"
  have "length (filter ?P signal_fields) \<le> length signal_fields"
    by (rule length_filter_le)
  then show ?thesis by (simp add: vote_count_length signal_fields_def)
qed

text \<open>The examples of the specification, computed.\<close>

lemma vote_count_aapl: "vote_count msg_aapl = 3"
  by (simp add: vote_count_def votes_def msg_aapl_def dict_get_def py_in_def)

lemma vote_count_msft: "vote_count msg_msft = 0"
  by (simp add: vote_count_def votes_def msg_msft_def dict_get_def py_in_def)

lemma vote_count_no_symbol: "vote_count msg_no_symbol = 2"
  by (simp add: vote_count_def votes_def msg_no_symbol_def dict_get_def py_in_def)

lemma vote_count_mixed: "vote_count msg_mixed = 2"
  by (simp add: vote_count_def votes_def msg_mixed_def dict_get_def py_in_def)

lemma vote_count_collide: "vote_count msg_collide = 1"
  by (simp add: vote_count_def votes_def msg_collide_def dict_get_def py_in_def)

lemma heap_state_of: "heap (state_of m) 0 = m"
  by (simp add: state_of_def)

lemma lim_state_of: "lim (state_of m) = 1"
  by (simp add: state_of_def)

lemma logged_state_of: "logged (state_of m) = []"
  by (simp add: state_of_def)

lemma result_no_symbol:
  "result msg_no_symbol =
     [''final_strategy_decision'' \<mapsto> PStr ''HOLD'', ''strategy_votes'' \<mapsto> PInt 2]"
  by (simp add: result_def decision_def vote_count_no_symbol)

section \<open>Frame lemmas\<close>

lemma evaluate_strategy_frame:
  "b < lim s \<Longrightarrow> heap (snd (evaluate_strategy message s)) b = heap s b"
  by (simp add: evaluate_strategy_heap)

lemma validate_heap: "heap (snd (validate_input_message chk message s)) = heap s"
  by (simp add: validate_input_message_def logger_call_def Let_def)

lemma validate_lim: "lim (snd (validate_input_message chk message s)) = lim s"
  by (simp add: validate_input_message_def logger_call_def Let_def)

lemma validate_fst:
  "fst (validate_input_message chk message s) =
     (if chk (heap s message) then Inr message else Inl (ValueError ''Invalid message format''))"
  by (simp add: validate_input_message_def logger_call_def Let_def)

section \<open>The evaluator on values of any class: decoded signals\<close>












section \<open>The properties of the specification\<close>

text \<open>
  C1 (threshold law). In the output of the evaluator, \<^verbatim>\<open>final_strategy_decision\<close> is
  \<^verbatim>\<open>"BUY"\<close> exactly when \<^verbatim>\<open>strategy_votes\<close> is at least 3, and \<^verbatim>\<open>"HOLD"\<close>
  exactly when it is below 3. The threshold is the constant 3 and is inclusive. This holds
  for every message, validated or not.
\<close>

theorem threshold_law:
  "(evaluate_output message s ''final_strategy_decision'' = Some (PStr ''BUY'')
      \<longleftrightarrow> (\<exists>n. evaluate_output message s ''strategy_votes'' = Some (PInt n) \<and> 3 \<le> n))
   \<and> (evaluate_output message s ''final_strategy_decision'' = Some (PStr ''HOLD'')
      \<longleftrightarrow> (\<exists>n. evaluate_output message s ''strategy_votes'' = Some (PInt n) \<and> n < 3))"
  by (simp add: evaluate_output_decision evaluate_output_votes decision_def)

text \<open>Three votes give \<^verbatim>\<open>"BUY"\<close>, two give \<^verbatim>\<open>"HOLD"\<close>.\<close>

theorem threshold_law_witness:
  "evaluate_output 0 (state_of msg_aapl) ''strategy_votes'' = Some (PInt 3)
   \<and> evaluate_output 0 (state_of msg_aapl) ''final_strategy_decision'' = Some (PStr ''BUY'')
   \<and> evaluate_output 0 (state_of msg_no_symbol) ''strategy_votes'' = Some (PInt 2)
   \<and> evaluate_output 0 (state_of msg_no_symbol) ''final_strategy_decision''
       = Some (PStr ''HOLD'')"
  using threshold_law [of 0 "state_of msg_aapl"] threshold_law [of 0 "state_of msg_no_symbol"]
  by (simp add: evaluate_output_votes heap_state_of vote_count_aapl vote_count_no_symbol)

text \<open>
  C2 (vote count). The \<^verbatim>\<open>strategy_votes\<close> of the output is the number of the six signal
  fields whose value in the message is one of the strings \<^verbatim>\<open>"BUY"\<close>, \<^verbatim>\<open>"INCLUDE"\<close>,
  \<^verbatim>\<open>"OVEREXPOSED"\<close>, \<^verbatim>\<open>"REVERT_UP"\<close>. A field that is absent or holds anything else is
  not in the counted set, so it adds nothing.
\<close>

theorem votes_count_affirmative_fields:
  "evaluate_output message s ''strategy_votes'' =
     Some (PInt (int (spec_vote_count (heap s message))))"
  by (simp add: evaluate_output_votes vote_count_spec)

theorem votes_count_affirmative_fields_witness:
  "evaluate_output 0 (state_of msg_mixed) ''strategy_votes'' = Some (PInt 2)
   \<and> spec_vote_count msg_mixed = 2
   \<and> evaluate_output 0 (state_of msg_msft) ''strategy_votes'' = Some (PInt 0)
   \<and> spec_vote_count msg_msft = 0"
  using votes_count_affirmative_fields [of 0 "state_of msg_mixed"]
    votes_count_affirmative_fields [of 0 "state_of msg_msft"]
  by (simp add: evaluate_output_votes heap_state_of vote_count_mixed vote_count_msft)

text \<open>
  C3 (validator gate). The validator raises its error exactly when the schema check
  rejects the message. When the check accepts, the validator returns the very reference
  it was given: no object is created and no object is changed.
\<close>

theorem validator_gate:
  "(isl (fst (validate_input_message chk message s)) \<longleftrightarrow> \<not> chk (heap s message))
   \<and> (\<not> chk (heap s message) \<longrightarrow>
        fst (validate_input_message chk message s) = Inl (ValueError ''Invalid message format''))
   \<and> (chk (heap s message) \<longrightarrow>
        fst (validate_input_message chk message s) = Inr message
        \<and> heap (snd (validate_input_message chk message s)) = heap s
        \<and> lim (snd (validate_input_message chk message s)) = lim s)"
  by (simp add: validate_fst validate_heap validate_lim)

theorem validator_gate_witness:
  "has_symbol (heap (state_of msg_aapl) 0)
   \<and> fst (validate_input_message has_symbol 0 (state_of msg_aapl)) = Inr 0
   \<and> heap (snd (validate_input_message has_symbol 0 (state_of msg_aapl))) 0 = msg_aapl
   \<and> \<not> has_symbol (heap (state_of msg_no_symbol) 0)
   \<and> fst (validate_input_message has_symbol 0 (state_of msg_no_symbol))
       = Inl (ValueError ''Invalid message format'')"
  using validator_gate [of has_symbol 0 "state_of msg_aapl"]
    validator_gate [of has_symbol 0 "state_of msg_no_symbol"]
  by (simp add: heap_state_of has_symbol_def msg_aapl_def msg_no_symbol_def)

text \<open>
  C4 (merge preservation). Every key of the message other than
  \<^verbatim>\<open>final_strategy_decision\<close> and \<^verbatim>\<open>strategy_votes\<close> has in the output the value it has in
  the message (and a key absent from the message is absent from the output). The message
  is an existing object.
\<close>

theorem merge_preservation:
  "message < lim s \<Longrightarrow> k \<noteq> ''final_strategy_decision'' \<Longrightarrow> k \<noteq> ''strategy_votes'' \<Longrightarrow>
     evaluate_output message s k = heap s message k"
  by (simp add: evaluate_output_live result_def map_add_def)

theorem merge_preservation_witness:
  "(0::nat) < lim (state_of msg_aapl)
   \<and> ''symbol'' \<noteq> ''final_strategy_decision'' \<and> ''symbol'' \<noteq> ''strategy_votes''
   \<and> evaluate_output 0 (state_of msg_aapl) ''symbol'' = Some (PStr ''AAPL'')"
  using merge_preservation [of 0 "state_of msg_aapl" "''symbol''"]
  by (simp add: heap_state_of lim_state_of msg_aapl_def)

text \<open>
  C5 (shallow merge). The output is the message overlaid with the result dictionary that
  the call has just built (a new object, at the first free address): the two keys of the
  result take the result's values, also when the message already has keys of these names.
  The message is an existing object.
\<close>

theorem shallow_merge_overwrites:
  "message < lim s \<Longrightarrow>
     evaluate_output message s = heap s message ++ result (heap s message)
     \<and> heap (snd (evaluate_strategy message s)) (lim s) = result (heap s message)
     \<and> dom (result (heap s message)) = {''final_strategy_decision'', ''strategy_votes''}
     \<and> evaluate_output message s ''final_strategy_decision''
         = result (heap s message) ''final_strategy_decision''
     \<and> evaluate_output message s ''strategy_votes''
         = result (heap s message) ''strategy_votes''"
  by (auto simp: evaluate_output_live evaluate_strategy_heap result_def map_add_def)

theorem shallow_merge_overwrites_witness:
  "(0::nat) < lim (state_of msg_collide)
   \<and> heap (state_of msg_collide) 0 ''final_strategy_decision'' = Some (PStr ''SELL'')
   \<and> heap (state_of msg_collide) 0 ''strategy_votes'' = Some (PInt 99)
   \<and> evaluate_output 0 (state_of msg_collide) ''final_strategy_decision'' = Some (PStr ''HOLD'')
   \<and> evaluate_output 0 (state_of msg_collide) ''strategy_votes'' = Some (PInt 1)"
  using shallow_merge_overwrites [of 0 "state_of msg_collide"]
  by (simp add: heap_state_of lim_state_of result_def decision_def vote_count_collide)
    (simp add: msg_collide_def)

text \<open>
  C6 (ranges). In the output, \<^verbatim>\<open>strategy_votes\<close> is an integer between 0 and 6 and
  \<^verbatim>\<open>final_strategy_decision\<close> is one of the two strings \<^verbatim>\<open>"BUY"\<close> and \<^verbatim>\<open>"HOLD"\<close>.
\<close>

theorem votes_and_decision_range:
  "\<exists>n. evaluate_output message s ''strategy_votes'' = Some (PInt n) \<and> 0 \<le> n \<and> n \<le> 6
       \<and> (evaluate_output message s ''final_strategy_decision'' = Some (PStr ''BUY'')
          \<or> evaluate_output message s ''final_strategy_decision'' = Some (PStr ''HOLD''))"
  by (simp add: evaluate_output_decision evaluate_output_votes decision_def vote_count_bounds)

theorem votes_and_decision_range_witness:
  "evaluate_output 0 (state_of msg_mixed) ''strategy_votes'' = Some (PInt 2)
   \<and> (0::int) \<le> 2 \<and> (2::int) \<le> 6
   \<and> evaluate_output 0 (state_of msg_mixed) ''final_strategy_decision'' = Some (PStr ''HOLD'')"
  using votes_and_decision_range [of 0 "state_of msg_mixed"]
  by (simp add: evaluate_output_votes evaluate_output_decision decision_def heap_state_of
      vote_count_mixed)

text \<open>
  C7 (determinism). Calling the evaluator a second time on the same message, in the state
  the first call left, gives the same output; and the output is the same in any state and
  at any address where the message has the same contents. So nothing a call leaves behind
  (its two log entries, its two new objects) reaches a later result.
\<close>

theorem evaluate_deterministic:
  "message < lim s \<Longrightarrow>
     evaluate_output message (snd (evaluate_strategy message s)) = evaluate_output message s
     \<and> (\<forall>s' message'. message' < lim s' \<and> heap s' message' = heap s message \<longrightarrow>
           evaluate_output message' s' = evaluate_output message s)"
  by (simp add: evaluate_output_live evaluate_strategy_lim evaluate_strategy_heap)

theorem evaluate_deterministic_witness:
  "(0::nat) < lim (state_of msg_aapl)
   \<and> evaluate_output 0 (snd (evaluate_strategy 0 (state_of msg_aapl)))
       = evaluate_output 0 (state_of msg_aapl)
   \<and> evaluate_output 0 (snd (evaluate_strategy 0 (state_of msg_aapl)))
       ''final_strategy_decision'' = Some (PStr ''BUY'')"
proof -
  have live: "(0::nat) < lim (state_of msg_aapl)"
    by (simp add: lim_state_of)
  from evaluate_deterministic [OF live]
  have again: "evaluate_output 0 (snd (evaluate_strategy 0 (state_of msg_aapl)))
      = evaluate_output 0 (state_of msg_aapl)"
    by (rule conjunct1)
  have "evaluate_output 0 (state_of msg_aapl) ''final_strategy_decision'' = Some (PStr ''BUY'')"
    by (simp add: evaluate_output_decision decision_def heap_state_of vote_count_aapl)
  with live again show ?thesis by (simp only: simp_thms)
qed

text \<open>
  C8 (default symbol). When the message has no \<^verbatim>\<open>symbol\<close> key, the two log calls carry
  the string \<^verbatim>\<open>"UNKNOWN"\<close>, the vote count and the decision of the output are the usual
  ones, and the output still has no \<^verbatim>\<open>symbol\<close> key: the default is used for logging
  only. The evaluator has no raising statement, so the call returns.
\<close>

theorem symbol_default:
  "heap s message ''symbol'' = None \<Longrightarrow>
     logged (snd (evaluate_strategy message s)) =
       logged s @
       [(INFO, Evaluating_strategy_for (PStr ''UNKNOWN'')),
        (DEBUG, Final_strategy_decision_for (PStr ''UNKNOWN'') (result (heap s message)))]
     \<and> evaluate_output message s ''strategy_votes''
         = Some (PInt (int (spec_vote_count (heap s message))))
     \<and> evaluate_output message s ''final_strategy_decision''
         = Some (PStr (if 3 \<le> spec_vote_count (heap s message) then ''BUY'' else ''HOLD''))
     \<and> (message < lim s \<longrightarrow> evaluate_output message s ''symbol'' = None)"
  by (simp add: evaluate_strategy_logged dict_get_def evaluate_output_votes
      evaluate_output_decision decision_def vote_count_spec evaluate_output_live
      result_def map_add_def)

theorem symbol_default_witness:
  "heap (state_of msg_no_symbol) 0 ''symbol'' = None
   \<and> logged (snd (evaluate_strategy 0 (state_of msg_no_symbol))) =
       [(INFO, Evaluating_strategy_for (PStr ''UNKNOWN'')),
        (DEBUG, Final_strategy_decision_for (PStr ''UNKNOWN'')
           [''final_strategy_decision'' \<mapsto> PStr ''HOLD'', ''strategy_votes'' \<mapsto> PInt 2])]
   \<and> evaluate_output 0 (state_of msg_no_symbol) ''strategy_votes'' = Some (PInt 2)
   \<and> evaluate_output 0 (state_of msg_no_symbol) ''final_strategy_decision''
       = Some (PStr ''HOLD'')
   \<and> evaluate_output 0 (state_of msg_no_symbol) ''symbol'' = None"
proof -
  have absent: "heap (state_of msg_no_symbol) 0 ''symbol'' = None"
    by (simp add: heap_state_of msg_no_symbol_def)
  have two: "spec_vote_count msg_no_symbol = 2"
    using vote_count_spec [of msg_no_symbol] by (simp add: vote_count_no_symbol)
  from symbol_default [OF absent] absent show ?thesis
    by (simp add: heap_state_of lim_state_of logged_state_of result_no_symbol two)
qed




text \<open>
  C10 (no mutation). A call of the evaluator leaves every existing object as it was, the
  message among them, and returns a reference to a new object. A call of the validator
  leaves the whole store as it was, and returns the reference it was given or raises.
\<close>

theorem no_mutation:
  "(\<forall>b. b < lim s \<longrightarrow> heap (snd (evaluate_strategy message s)) b = heap s b)
   \<and> lim s < fst (evaluate_strategy message s)
   \<and> heap (snd (validate_input_message chk message s)) = heap s
   \<and> (fst (validate_input_message chk message s) = Inr message
       \<or> isl (fst (validate_input_message chk message s)))"
  by (simp add: evaluate_strategy_frame evaluate_strategy_fst validate_heap validate_fst)

theorem no_mutation_witness:
  "heap (snd (evaluate_strategy 0 (state_of msg_collide))) 0 = msg_collide
   \<and> fst (evaluate_strategy 0 (state_of msg_collide)) \<noteq> 0
   \<and> heap (snd (validate_input_message has_symbol 0 (state_of msg_no_symbol))) 0
       = msg_no_symbol
   \<and> heap (snd (validate_input_message has_symbol 0 (state_of msg_aapl))) 0 = msg_aapl"
  using no_mutation [of "state_of msg_collide" 0 has_symbol]
    no_mutation [of "state_of msg_no_symbol" 0 has_symbol]
    no_mutation [of "state_of msg_aapl" 0 has_symbol]
  by (simp add: heap_state_of lim_state_of)

end
